theory Spec2Isabelle
  imports Complex_Main "HOL-Library.Signed_Division"
begin

section \<open>GLSL values\<close>

text \<open>
  The shaders of \<^verbatim>\<open>src/headers/ogl_shaders\<close> compute on GLSL 4.50 scalars: \<^verbatim>\<open>int\<close> is a
  32-bit two's complement integer, \<^verbatim>\<open>uint\<close> a 32-bit unsigned one. Both are modelled by
  \<^typ>\<open>int\<close>, with the wrap-around of every conversion and every arithmetic result that is
  stored in such a variable written out by \<open>to_int32\<close> and \<open>to_uint32\<close>.
\<close>

definition to_int32 :: "int \<Rightarrow> int" where
  "to_int32 v = signed_take_bit 31 v"

definition to_uint32 :: "int \<Rightarrow> int" where
  "to_uint32 v = take_bit 32 v"

text \<open>
  GLSL's \<^verbatim>\<open>%\<close> on integers: the remainder is defined (and non-negative) when both operands
  are non-negative and the divisor is not zero; the language leaves the result undefined when
  an operand is negative. The undefined case is the value \<open>None\<close>.
\<close>

definition glsl_mod :: "int \<Rightarrow> int \<Rightarrow> int option" where
  "glsl_mod k l = (if 0 \<le> k \<and> 0 < l then Some (k mod l) else None)"

text \<open>
  \<^verbatim>\<open>ivec2\<close> is a pair (x, y); \<^verbatim>\<open>uvec4\<close> has the components r, g, b, a, named here
  \<open>red\<close>, \<open>green\<close>, \<open>blue\<close> and \<open>alpha\<close>. An \<^verbatim>\<open>uimage2D\<close> is a store of texels addressed
  by integer coordinates; \<^verbatim>\<open>imageLoad\<close> reads a texel and \<^verbatim>\<open>imageStore\<close> replaces one.
  The shaders do not know the extent of an image, and the model gives it none: every
  coordinate addresses a texel.
  The only effect a fragment shader invocation of this repository has on an image is at most
  one \<^verbatim>\<open>imageStore\<close>; \<open>frag_effect\<close> records which one, or that none happened, or that the
  invocation evaluated an expression GLSL leaves undefined.
\<close>

type_synonym ivec2 = "int \<times> int"

record uvec4 =
  red :: int
  green :: int
  blue :: int
  alpha :: int

type_synonym uimage2D = "ivec2 \<Rightarrow> uvec4"

definition imageLoad :: "uimage2D \<Rightarrow> ivec2 \<Rightarrow> uvec4" where
  "imageLoad img P = img P"

definition imageStore :: "uimage2D \<Rightarrow> ivec2 \<Rightarrow> uvec4 \<Rightarrow> uimage2D" where
  "imageStore img P texel = img(P := texel)"

datatype frag_effect = Undefined | NoStore | ImageStore ivec2 uvec4

fun run_effect :: "frag_effect \<Rightarrow> uimage2D \<Rightarrow> uimage2D option" where
  "run_effect Undefined img = None"
| "run_effect NoStore img = Some img"
| "run_effect (ImageStore P texel) img = Some (imageStore img P texel)"

section \<open>The shaded polygon fragment shader\<close>

text \<open>
  \<^verbatim>\<open>ShadedPolygon_FragmentShader1.h\<close>. Its uniforms are the record \<open>uniforms\<close>. The inputs
  of one invocation are the fragment coordinate \<^verbatim>\<open>ivec2(gl_FragCoord.xy)\<close> and the three
  values \<^verbatim>\<open>int(interpolated_colour.r)\<close>, \<^verbatim>\<open>int(interpolated_colour.g)\<close> and
  \<^verbatim>\<open>int(interpolated_colour.b)\<close>; the conversions from floating point happen before the
  model starts.
\<close>

record uniforms =
  dither :: int
  semiTransparencyEnabled :: int
  semiTransparencyMode :: int
  setMask :: int
  checkMask :: int
  drawTopLeftX :: int
  drawTopLeftY :: int
  drawBottomRightX :: int
  drawBottomRightY :: int

text \<open>Lines 201 to 210.\<close>

definition inDrawingArea :: "uniforms \<Rightarrow> ivec2 \<Rightarrow> bool" where
  "inDrawingArea u pixelCoord =
     (fst pixelCoord \<ge> drawTopLeftX u \<and> fst pixelCoord \<le> drawBottomRightX u \<and>
      snd pixelCoord \<le> drawTopLeftY u \<and> snd pixelCoord \<ge> drawBottomRightY u)"

text \<open>Lines 48 to 64: \<open>ditherArray ! i ! j\<close> is \<^verbatim>\<open>ditherArray[i][j]\<close>.\<close>

definition ditherArray :: "int list list" where
  "ditherArray =
     [[-4, 2, -3, 3],
      [0, -2, 1, -1],
      [-3, 3, -4, 2],
      [1, -1, 0, -2]]"

text \<open>
  Lines 67 to 71: the dither column and row of a fragment and the array element they select.
  Both indices are remainders modulo 4, so the element read is always inside the array.
\<close>

definition ditherOffset :: "ivec2 \<Rightarrow> int option" where
  "ditherOffset tempDrawCoord =
     (case glsl_mod (fst tempDrawCoord) 4 of
        None \<Rightarrow> None
      | Some ditherColumn \<Rightarrow>
          (case glsl_mod (to_int32 (511 - snd tempDrawCoord)) 4 of
             None \<Rightarrow> None
           | Some ditherRow \<Rightarrow> Some (ditherArray ! nat ditherColumn ! nat ditherRow)))"

text \<open>
  Lines 45 and 71 to 98 for one channel: the channel as a signed integer, the offset added,
  the result clamped to 0 .. 0xFF and stored back as an unsigned integer.
\<close>

definition ditherChannel :: "int \<Rightarrow> int \<Rightarrow> int" where
  "ditherChannel offset texChannel =
     (let ditherPixel = to_int32 (to_int32 texChannel + offset) in
      to_uint32 (if ditherPixel < 0 then 0
                 else if ditherPixel > 0xFF then 0xFF
                 else ditherPixel))"

text \<open>Lines 102 to 105 (and 106 to 113) for one channel.\<close>

definition quantiseChannel :: "int \<Rightarrow> int" where
  "quantiseChannel texChannel =
     (let shifted = drop_bit 3 texChannel in
      if shifted > 0x1F then 0x1F else shifted)"

text \<open>
  Lines 130 to 151 for one channel: the \<^verbatim>\<open>switch\<close> on the semi-transparency mode, which
  has no default branch. \<^verbatim>\<open>/\<close> on \<^verbatim>\<open>int\<close> is the truncating division.
\<close>

definition blendFormula :: "int \<Rightarrow> int \<Rightarrow> int \<Rightarrow> int" where
  "blendFormula mode old new =
     (if mode = 0 then to_int32 (old sdiv 2 + new sdiv 2)
      else if mode = 1 then to_int32 (old + new)
      else if mode = 2 then to_int32 (old - new)
      else if mode = 3 then to_int32 (old + new sdiv 4)
      else new)"

text \<open>Lines 154 to 159 (161 to 173) for one channel.\<close>

definition saturate :: "int \<Rightarrow> int" where
  "saturate new = (if new < 0 then 0 else if new > 31 then 31 else new)"

text \<open>
  Lines 121 to 178 for one channel: both channels read as signed integers, the formula of the
  mode, the saturation, and the result stored into the unsigned channel of the pixel.
\<close>

definition blendChannel :: "int \<Rightarrow> int \<Rightarrow> int \<Rightarrow> int" where
  "blendChannel mode vramChannel texChannel =
     to_uint32 (saturate (blendFormula mode (to_int32 vramChannel) (to_int32 texChannel)))"

text \<open>Lines 32 to 99: the pixel after the colour merge and the dither block.\<close>

definition ditheredPixel :: "uniforms \<Rightarrow> ivec2 \<Rightarrow> int \<times> int \<times> int \<Rightarrow> uvec4 option" where
  "ditheredPixel u tempDrawCoord colour =
     (let texPixel = \<lparr>red = to_uint32 (fst colour),
                      green = to_uint32 (fst (snd colour)),
                      blue = to_uint32 (snd (snd colour)),
                      alpha = 0\<rparr>
      in if dither u = 1 then
           (case ditherOffset tempDrawCoord of
              None \<Rightarrow> None
            | Some offset \<Rightarrow>
                Some (texPixel\<lparr>red := ditherChannel offset (red texPixel),
                               green := ditherChannel offset (green texPixel),
                               blue := ditherChannel offset (blue texPixel)\<rparr>))
         else Some texPixel)"

text \<open>Lines 101 to 113.\<close>

definition quantisedPixel :: "uvec4 \<Rightarrow> uvec4" where
  "quantisedPixel texPixel =
     texPixel\<lparr>red := quantiseChannel (red texPixel),
              green := quantiseChannel (green texPixel),
              blue := quantiseChannel (blue texPixel)\<rparr>"

text \<open>Lines 118 to 179.\<close>

definition blendedPixel :: "uniforms \<Rightarrow> uvec4 \<Rightarrow> uvec4 \<Rightarrow> uvec4" where
  "blendedPixel u vramPixel texPixel =
     (if semiTransparencyEnabled u = 1 then
        texPixel\<lparr>red := blendChannel (semiTransparencyMode u) (red vramPixel) (red texPixel),
                 green := blendChannel (semiTransparencyMode u) (green vramPixel) (green texPixel),
                 blue := blendChannel (semiTransparencyMode u) (blue vramPixel) (blue texPixel)\<rparr>
      else texPixel)"

text \<open>Lines 181 to 184.\<close>

definition maskedPixel :: "uniforms \<Rightarrow> uvec4 \<Rightarrow> uvec4" where
  "maskedPixel u texPixel = (if setMask u = 1 then texPixel\<lparr>alpha := 0x1\<rparr> else texPixel)"

text \<open>
  Lines 29 to 113: the value of \<^verbatim>\<open>texPixel\<close> when the shader reaches line 115, the incoming
  (front) pixel in the 15-bit format.
\<close>

definition frontPixel :: "uniforms \<Rightarrow> ivec2 \<Rightarrow> int \<times> int \<times> int \<Rightarrow> uvec4 option" where
  "frontPixel u tempDrawCoord colour =
     (case ditheredPixel u tempDrawCoord colour of
        None \<Rightarrow> None
      | Some texPixel \<Rightarrow> Some (quantisedPixel texPixel))"

text \<open>Lines 29 to 184: the value of \<^verbatim>\<open>texPixel\<close> when the shader reaches line 186.\<close>

definition texPixelOf :: "uniforms \<Rightarrow> uimage2D \<Rightarrow> ivec2 \<Rightarrow> int \<times> int \<times> int \<Rightarrow> uvec4 option" where
  "texPixelOf u vramImage tempDrawCoord colour =
     (case frontPixel u tempDrawCoord colour of
        None \<Rightarrow> None
      | Some texPixel \<Rightarrow>
          Some (maskedPixel u (blendedPixel u (imageLoad vramImage tempDrawCoord) texPixel)))"

text \<open>Lines 27 to 199: the whole invocation, as the store it performs.\<close>

definition ShadedPolygon_main ::
  "uniforms \<Rightarrow> uimage2D \<Rightarrow> ivec2 \<Rightarrow> int \<times> int \<times> int \<Rightarrow> frag_effect" where
  "ShadedPolygon_main u vramImage tempDrawCoord colour =
     (case texPixelOf u vramImage tempDrawCoord colour of
        None \<Rightarrow> Undefined
      | Some texPixel \<Rightarrow>
          (let vramPixel = imageLoad vramImage tempDrawCoord;
               inArea = inDrawingArea u tempDrawCoord
           in if checkMask u = 1 then
                (if alpha vramPixel \<noteq> 1 \<and> inArea
                 then ImageStore tempDrawCoord texPixel
                 else NoStore)
              else if inArea then ImageStore tempDrawCoord texPixel
              else NoStore))"

section \<open>The second fragment shader of the GP0(80h) copy\<close>

text \<open>
  \<^verbatim>\<open>GP0_80_FragmentShader2.h\<close>, lines 29 to 61. Its uniforms are \<^verbatim>\<open>xOffset\<close>, \<^verbatim>\<open>yOffset\<close>,
  \<^verbatim>\<open>setMask\<close> and \<^verbatim>\<open>checkMask\<close>; it declares no drawing-area uniform and calls no
  \<^verbatim>\<open>inDrawingArea\<close>. The pixel it stores is the one loaded from the temporary draw image.
\<close>

definition GP0_80_main ::
  "int \<Rightarrow> int \<Rightarrow> int \<Rightarrow> int \<Rightarrow> uimage2D \<Rightarrow> uimage2D \<Rightarrow> ivec2 \<Rightarrow> frag_effect" where
  "GP0_80_main xOffset yOffset setMask' checkMask' tempDrawImage vramImage fragCoord =
     (let tempDrawCoord = (to_int32 (fst fragCoord - xOffset), to_int32 (snd fragCoord - yOffset));
          vramCoord = fragCoord;
          tempDrawPixel = imageLoad tempDrawImage tempDrawCoord;
          vramPixel = imageLoad vramImage vramCoord;
          tempDrawPixel = (if setMask' = 1 then tempDrawPixel\<lparr>alpha := 0x1\<rparr> else tempDrawPixel)
      in if checkMask' = 1 then
           (if alpha vramPixel \<noteq> 1 then ImageStore vramCoord tempDrawPixel else NoStore)
         else ImageStore vramCoord tempDrawPixel)"

section \<open>The vertex shaders\<close>

text \<open>
  \<^verbatim>\<open>GP0_A0_VertexShader1.h\<close> and \<^verbatim>\<open>MonochromeRectangle_VertexShader1.h\<close>, lines 16 to 22 of
  each. A \<^verbatim>\<open>vec4\<close> is (x, y, z, w); the literals -1.0, 0.0 and 1.0 are exact. The array has
  four elements, and subscripting it outside 0 .. 3 is undefined in GLSL: \<open>None\<close>.
\<close>

type_synonym vec4 = "real \<times> real \<times> real \<times> real"

definition GP0_A0_VertexShader1_main :: "int \<Rightarrow> vec4 option" where
  "GP0_A0_VertexShader1_main gl_VertexID =
     (let positions = [(-1.0, -1.0, 0.0, 1.0),
                       (-1.0, 1.0, 0.0, 1.0),
                       (1.0, -1.0, 0.0, 1.0),
                       (1.0, 1.0, 0.0, 1.0)]
      in if 0 \<le> gl_VertexID \<and> gl_VertexID < 4 then Some (positions ! nat gl_VertexID) else None)"

definition MonochromeRectangle_VertexShader1_main :: "int \<Rightarrow> vec4 option" where
  "MonochromeRectangle_VertexShader1_main gl_VertexID =
     (let positions = [(-1.0, -1.0, 0.0, 1.0),
                       (-1.0, 1.0, 0.0, 1.0),
                       (1.0, -1.0, 0.0, 1.0),
                       (1.0, 1.0, 0.0, 1.0)]
      in if 0 \<le> gl_VertexID \<and> gl_VertexID < 4 then Some (positions ! nat gl_VertexID) else None)"

section \<open>The public interface of the DMA arbiter\<close>

text \<open>
  \<^verbatim>\<open>DMAArbiter.h\<close>, lines 22 to 32, declares the public functions of the arbiter. A
  declaration is its name, its return type and the types of its parameters, in the order of
  the header.
\<close>

datatype ctype = Void | Int8 | Int32 | Pointer string

record fundecl =
  fname :: string
  returns :: ctype
  params :: "ctype list"

definition DMAArbiter_public_functions :: "fundecl list" where
  "DMAArbiter_public_functions =
     [\<lparr>fname = ''construct_DMAArbiter'', returns = Pointer ''DMAArbiter'', params = []\<rparr>,
      \<lparr>fname = ''destruct_DMAArbiter'', returns = Void, params = [Pointer ''DMAArbiter'']\<rparr>,
      \<lparr>fname = ''DMAArbiter_readByte'', returns = Int8,
         params = [Pointer ''DMAArbiter'', Int32]\<rparr>,
      \<lparr>fname = ''DMAArbiter_readWord'', returns = Int32,
         params = [Pointer ''DMAArbiter'', Int32]\<rparr>,
      \<lparr>fname = ''DMAArbiter_setCdrom'', returns = Void,
         params = [Pointer ''DMAArbiter'', Pointer ''CDROMDrive'']\<rparr>,
      \<lparr>fname = ''DMAArbiter_setCpu'', returns = Void,
         params = [Pointer ''DMAArbiter'', Pointer ''R3051'']\<rparr>,
      \<lparr>fname = ''DMAArbiter_setGpu'', returns = Void,
         params = [Pointer ''DMAArbiter'', Pointer ''GPU'']\<rparr>,
      \<lparr>fname = ''DMAArbiter_setMemoryInterface'', returns = Void,
         params = [Pointer ''DMAArbiter'', Pointer ''SystemInterlink'']\<rparr>,
      \<lparr>fname = ''DMAArbiter_writeByte'', returns = Void,
         params = [Pointer ''DMAArbiter'', Int32, Int8]\<rparr>,
      \<lparr>fname = ''DMAArbiter_writeWord'', returns = Void,
         params = [Pointer ''DMAArbiter'', Int32, Int32]\<rparr>]"

definition declared :: "string \<Rightarrow> (ctype \<times> ctype list) option" where
  "declared name =
     map_option (\<lambda>d. (returns d, params d))
       (find (\<lambda>d. fname d = name) DMAArbiter_public_functions)"

text \<open>
  Whether a name contains a given word, as a run of consecutive characters; letters compare
  without regard to case.
\<close>

definition lower :: "char \<Rightarrow> char" where
  "lower c = (if of_char c \<ge> (65::nat) \<and> of_char c \<le> (90::nat)
              then char_of (of_char c + (32::nat)) else c)"

fun starts_with :: "string \<Rightarrow> string \<Rightarrow> bool" where
  "starts_with [] name = True"
| "starts_with (w # ws) [] = False"
| "starts_with (w # ws) (c # cs) = (lower w = lower c \<and> starts_with ws cs)"

fun mentions :: "string \<Rightarrow> string \<Rightarrow> bool" where
  "mentions word [] = starts_with word []"
| "mentions word (c # cs) = (starts_with word (c # cs) \<or> mentions word cs)"

section \<open>The blend as the specification words it\<close>

text \<open>
  The specification gives the semi-transparency formulas as: mode 0 the average of back and
  front, mode 1 back + front, mode 2 back - front, mode 3 back + front/4, then a clamp to
  0 .. 31. \<open>spec_blend\<close> follows these words, to be compared with \<open>blendChannel\<close>, which
  follows the shader.
\<close>

definition spec_blend :: "int \<Rightarrow> int \<Rightarrow> int \<Rightarrow> int" where
  "spec_blend mode B F =
     max 0 (min 31
       (if mode = 0 then (B + F) div 2
        else if mode = 1 then B + F
        else if mode = 2 then B - F
        else B + F div 4))"

section \<open>Arithmetic of the wrap-around\<close>

lemma to_int32_id: "- (2 ^ 31) \<le> v \<Longrightarrow> v < 2 ^ 31 \<Longrightarrow> to_int32 v = v"
  by (simp add: to_int32_def signed_take_bit_int_eq_self)

lemma to_uint32_id: "0 \<le> v \<Longrightarrow> v < 2 ^ 32 \<Longrightarrow> to_uint32 v = v"
  by (simp add: to_uint32_def take_bit_int_eq_self)

lemma saturate_range: "0 \<le> saturate v \<and> saturate v \<le> 31"
  by (simp add: saturate_def)

lemma blendChannel_eq_saturate:
  "blendChannel mode B F = saturate (blendFormula mode (to_int32 B) (to_int32 F))"
  unfolding blendChannel_def using saturate_range [of "blendFormula mode (to_int32 B) (to_int32 F)"]
  by (simp add: to_uint32_id)

section \<open>Facts about the stages\<close>

lemma quantiseChannel_min: "quantiseChannel v = min 31 (v div 8)"
  by (simp add: quantiseChannel_def drop_bit_eq_div Let_def min_def)

lemma quantiseChannel_range: "0 \<le> v \<Longrightarrow> 0 \<le> quantiseChannel v \<and> quantiseChannel v \<le> 31"
  by (simp add: quantiseChannel_min)

lemma to_uint32_nonneg: "0 \<le> to_uint32 v"
  by (simp add: to_uint32_def)

lemma ditherChannel_range: "0 \<le> ditherChannel offset c \<and> ditherChannel offset c \<le> 255"
proof -
  define d where "d = to_int32 (to_int32 c + offset)"
  define e where "e = (if d < 0 then 0 else if d > 0xFF then 0xFF else d)"
  have e: "0 \<le> e \<and> e \<le> 255"
    by (simp add: e_def)
  then have "to_uint32 e = e"
    by (simp add: to_uint32_id)
  moreover have "ditherChannel offset c = to_uint32 e"
    by (simp add: ditherChannel_def d_def e_def Let_def)
  ultimately show ?thesis using e by simp
qed

lemma ditherChannel_8bit:
  assumes "0 \<le> c" "c \<le> 255" "- 4 \<le> offset" "offset \<le> 3"
  shows "ditherChannel offset c = max 0 (min 255 (c + offset))"
proof -
  have c: "to_int32 c = c"
    using assms by (simp add: to_int32_id)
  have s: "to_int32 (c + offset) = c + offset"
    using assms by (simp add: to_int32_id)
  define e where "e = (if c + offset < 0 then 0 else if c + offset > 0xFF then 0xFF else c + offset)"
  have "0 \<le> e \<and> e \<le> 255"
    by (simp add: e_def)
  then have "to_uint32 e = e"
    by (simp add: to_uint32_id)
  moreover have "ditherChannel offset c = to_uint32 e"
    by (simp add: ditherChannel_def c s e_def Let_def)
  moreover have "e = max 0 (min 255 (c + offset))"
    by (simp add: e_def max_def min_def)
  ultimately show ?thesis by simp
qed

lemma ditherArray_entry_range:
  assumes "0 \<le> i" "i < 4" "0 \<le> j" "j < 4"
  shows "- 4 \<le> ditherArray ! nat i ! nat j \<and> ditherArray ! nat i ! nat j \<le> 3"
proof -
  have i: "i = 0 \<or> i = 1 \<or> i = 2 \<or> i = 3"
    using assms by arith
  have j: "j = 0 \<or> j = 1 \<or> j = 2 \<or> j = 3"
    using assms by arith
  show ?thesis
    using i j by (auto simp: ditherArray_def numeral_2_eq_2 numeral_3_eq_3)
qed

lemma ditherOffset_in_vram:
  assumes "0 \<le> x" "0 \<le> y" "y \<le> 511"
  shows "ditherOffset (x, y) = Some (ditherArray ! nat (x mod 4) ! nat ((511 - y) mod 4))"
proof -
  have "to_int32 (511 - y) = 511 - y"
    using assms by (simp add: to_int32_id)
  then show ?thesis
    using assms by (simp add: ditherOffset_def glsl_mod_def)
qed

lemma ditherOffset_range:
  assumes "ditherOffset P = Some offset"
  shows "- 4 \<le> offset \<and> offset \<le> 3"
proof -
  obtain i j where "glsl_mod (fst P) 4 = Some i" "glsl_mod (to_int32 (511 - snd P)) 4 = Some j"
    and o: "offset = ditherArray ! nat i ! nat j"
    using assms by (auto simp: ditherOffset_def split: option.splits)
  then have "0 \<le> i \<and> i < 4 \<and> 0 \<le> j \<and> j < 4"
    by (auto simp: glsl_mod_def split: if_splits)
  then show ?thesis
    unfolding o using ditherArray_entry_range by blast
qed

lemma blendFormula_5bit:
  assumes "0 \<le> B" "B \<le> 255" "0 \<le> F" "F \<le> 31"
  shows "blendFormula mode (to_int32 B) (to_int32 F) =
           (if mode = 0 then B div 2 + F div 2
            else if mode = 1 then B + F
            else if mode = 2 then B - F
            else if mode = 3 then B + F div 4
            else F)"
proof -
  have B: "to_int32 B = B" and F: "to_int32 F = F"
    using assms by (simp_all add: to_int32_id)
  have h: "B sdiv 2 = B div 2" "F sdiv 2 = F div 2" "F sdiv 4 = F div 4"
    using assms by (simp_all add: signed_divide_int_def sgn_if)
  have "to_int32 (B div 2 + F div 2) = B div 2 + F div 2"
    using assms by (intro to_int32_id) simp_all
  moreover have "to_int32 (B + F) = B + F"
    using assms by (intro to_int32_id) simp_all
  moreover have "to_int32 (B - F) = B - F"
    using assms by (intro to_int32_id) simp_all
  moreover have "to_int32 (B + F div 4) = B + F div 4"
    using assms by (intro to_int32_id) simp_all
  ultimately show ?thesis
    by (simp add: blendFormula_def B F h)
qed

lemma saturate_max_min: "saturate v = max 0 (min 31 v)"
  by (simp add: saturate_def max_def min_def)

lemma blendChannel_5bit:
  assumes "0 \<le> B" "B \<le> 31" "0 \<le> F" "F \<le> 31" "mode \<in> {0, 1, 2, 3}"
  shows "blendChannel mode B F =
           max 0 (min 31
             (if mode = 0 then B div 2 + F div 2
              else if mode = 1 then B + F
              else if mode = 2 then B - F
              else B + F div 4))"
proof -
  have "blendFormula mode (to_int32 B) (to_int32 F) =
          (if mode = 0 then B div 2 + F div 2
           else if mode = 1 then B + F
           else if mode = 2 then B - F
           else B + F div 4)"
    using assms blendFormula_5bit [of B F mode] by auto
  then show ?thesis
    by (simp only: blendChannel_eq_saturate saturate_max_min)
qed

lemma ditheredPixel_defined:
  assumes "dither u \<noteq> 1 \<or> (0 \<le> fst P \<and> 0 \<le> snd P \<and> snd P \<le> 511)"
  shows "\<exists>d. ditheredPixel u P colour = Some d"
proof (cases "dither u = 1")
  case True
  with assms have "0 \<le> fst P" "0 \<le> snd P" "snd P \<le> 511"
    by simp_all
  then have "ditherOffset P \<noteq> None"
    using ditherOffset_in_vram [of "fst P" "snd P"] by simp
  then show ?thesis
    using True by (auto simp: ditheredPixel_def Let_def)
next
  case False
  then show ?thesis
    by (simp add: ditheredPixel_def Let_def)
qed

lemma texPixelOf_defined:
  assumes "dither u \<noteq> 1 \<or> (0 \<le> fst P \<and> 0 \<le> snd P \<and> snd P \<le> 511)"
  shows "\<exists>W. texPixelOf u vramImage P colour = Some W"
  using ditheredPixel_defined [OF assms, of colour]
  by (auto simp: texPixelOf_def frontPixel_def)

lemma ditheredPixel_nonneg:
  assumes "ditheredPixel u P colour = Some d"
  shows "0 \<le> red d \<and> 0 \<le> green d \<and> 0 \<le> blue d"
  using assms ditherChannel_range to_uint32_nonneg
  by (auto simp: ditheredPixel_def Let_def split: if_splits option.splits)

lemma frontPixel_5bit:
  assumes "frontPixel u P colour = Some F"
  shows "0 \<le> red F \<and> red F \<le> 31 \<and> 0 \<le> green F \<and> green F \<le> 31 \<and>
         0 \<le> blue F \<and> blue F \<le> 31"
proof -
  obtain d where d: "ditheredPixel u P colour = Some d" and F: "F = quantisedPixel d"
    using assms by (auto simp: frontPixel_def split: option.splits)
  show ?thesis
    unfolding F using ditheredPixel_nonneg [OF d]
    by (simp add: quantisedPixel_def quantiseChannel_range)
qed

lemma main_cases:
  "ShadedPolygon_main u vramImage P colour =
     (case texPixelOf u vramImage P colour of
        None \<Rightarrow> Undefined
      | Some W \<Rightarrow>
          if inDrawingArea u P \<and> (checkMask u \<noteq> 1 \<or> alpha (vramImage P) \<noteq> 1)
          then ImageStore P W else NoStore)"
  by (auto simp: ShadedPolygon_main_def imageLoad_def Let_def split: option.splits)

text \<open>
  The texels of the VRAM image have 8-bit components. Every texel the shaded polygon shader
  stores has its colour channels in 0 .. 31 and its mask bit 0 or 1, so the store loses
  nothing of the value the model keeps.
\<close>

lemma stored_texel_fits:
  assumes "ShadedPolygon_main u vramImage P colour = ImageStore Q W"
  shows "0 \<le> red W \<and> red W \<le> 31 \<and> 0 \<le> green W \<and> green W \<le> 31 \<and>
         0 \<le> blue W \<and> blue W \<le> 31 \<and> (alpha W = 0 \<or> alpha W = 1)"
proof -
  obtain F where F: "frontPixel u P colour = Some F"
    and W: "W = maskedPixel u (blendedPixel u (imageLoad vramImage P) F)"
    using assms by (auto simp: main_cases texPixelOf_def split: option.splits if_splits)
  have a: "alpha F = 0"
    using F by (auto simp: frontPixel_def ditheredPixel_def quantisedPixel_def Let_def
        split: option.splits if_splits)
  have b: "\<And>m B C. 0 \<le> blendChannel m B C \<and> blendChannel m B C \<le> 31"
    unfolding blendChannel_eq_saturate by (rule saturate_range)
  show ?thesis
    unfolding W using frontPixel_5bit [OF F] a b
    by (simp add: maskedPixel_def blendedPixel_def)
qed

lemmas shader_defs =
  ShadedPolygon_main_def texPixelOf_def frontPixel_def ditheredPixel_def ditherOffset_def
  glsl_mod_def to_int32_def to_uint32_def ditherArray_def ditherChannel_def
  quantisedPixel_def quantiseChannel_def blendedPixel_def blendChannel_def blendFormula_def
  saturate_def maskedPixel_def imageLoad_def imageStore_def inDrawingArea_def
  signed_divide_int_def Let_def

section \<open>Claims\<close>

text \<open>
  C4. For all four semi-transparency blend modes and every pair of back and front channel
  values in the 5-bit range, the channel written by the blend lies in 0 .. 31, also where the
  formula of the mode leaves that range (the subtraction of mode 2 below 0, the addition of
  mode 1 above 31).
\<close>

theorem blend_output_in_range:
  "0 \<le> B \<and> B \<le> 31 \<and> 0 \<le> F \<and> F \<le> 31 \<and> mode \<in> {0, 1, 2, 3}
   \<Longrightarrow> 0 \<le> blendChannel mode B F \<and> blendChannel mode B F \<le> 31"
  unfolding blendChannel_eq_saturate by (rule saturate_range)

theorem blend_output_in_range_witness:
  "blendChannel 2 3 20 = 0 \<and> blendChannel 1 20 20 = 31 \<and>
   0 \<le> blendChannel 2 3 20 \<and> blendChannel 2 3 20 \<le> 31 \<and>
   0 \<le> blendChannel 1 20 20 \<and> blendChannel 1 20 20 \<le> 31"
  using blend_output_in_range [of 3 20 2] blend_output_in_range [of 20 20 1]
  by (simp add: blendChannel_def blendFormula_def saturate_def to_int32_def to_uint32_def)

text \<open>
  C3, as the specification states it: each colour channel of the pixel a semi-transparent
  primitive writes is the clamp to 0 .. 31 of the formula of the mode, mode 0 being the average
  of the back channel B and the front channel F. This fails for mode 0: with B = 1 and F = 1
  (front colour 8 before quantisation) the average is 1, and the shader writes 0.
\<close>

theorem blend_mode0_is_not_the_average:
  "frontPixel
     \<lparr>dither = 0, semiTransparencyEnabled = 1, semiTransparencyMode = 0, setMask = 0,
      checkMask = 0, drawTopLeftX = 0, drawTopLeftY = 511, drawBottomRightX = 1023,
      drawBottomRightY = 0\<rparr>
     (0, 0) (8, 8, 8) = Some \<lparr>red = 1, green = 1, blue = 1, alpha = 0\<rparr> \<and>
   ShadedPolygon_main
     \<lparr>dither = 0, semiTransparencyEnabled = 1, semiTransparencyMode = 0, setMask = 0,
      checkMask = 0, drawTopLeftX = 0, drawTopLeftY = 511, drawBottomRightX = 1023,
      drawBottomRightY = 0\<rparr>
     (\<lambda>P. \<lparr>red = 1, green = 1, blue = 1, alpha = 0\<rparr>) (0, 0) (8, 8, 8)
     = ImageStore (0, 0) \<lparr>red = 0, green = 0, blue = 0, alpha = 0\<rparr> \<and>
   spec_blend 0 1 1 = 1"
  by (simp add: shader_defs spec_blend_def)

text \<open>
  C3, amended: for every pixel a semi-transparent primitive writes, with the back pixel B (the
  existing VRAM pixel) in the 5-bit range and F the front pixel after quantisation (always in
  the 5-bit range), each colour channel written is the clamp to 0 .. 31 of: mode 0,
  B div 2 + F div 2 (each half truncated before the sum); mode 1, B + F; mode 2, B - F;
  mode 3, B + F div 4; each channel independently.
\<close>

theorem blend_written_pixel:
  assumes "ShadedPolygon_main u vramImage P colour = ImageStore Q W"
    and "semiTransparencyEnabled u = 1"
    and "semiTransparencyMode u \<in> {0, 1, 2, 3}"
    and "frontPixel u P colour = Some F"
    and "B = imageLoad vramImage P"
    and "0 \<le> red B \<and> red B \<le> 31 \<and> 0 \<le> green B \<and> green B \<le> 31 \<and> 0 \<le> blue B \<and> blue B \<le> 31"
  shows "Q = P \<and>
         (\<forall>ch \<in> {red, green, blue}.
            0 \<le> ch F \<and> ch F \<le> 31 \<and>
            ch W = max 0 (min 31
                     (if semiTransparencyMode u = 0 then ch B div 2 + ch F div 2
                      else if semiTransparencyMode u = 1 then ch B + ch F
                      else if semiTransparencyMode u = 2 then ch B - ch F
                      else ch B + ch F div 4)))"
proof -
  have W: "texPixelOf u vramImage P colour = Some W" and Q: "Q = P"
    using assms(1) by (auto simp: main_cases split: option.splits if_splits)
  have "W = maskedPixel u (blendedPixel u B F)"
    using W assms(4,5) by (simp add: texPixelOf_def)
  then have ch: "red W = blendChannel (semiTransparencyMode u) (red B) (red F)"
    "green W = blendChannel (semiTransparencyMode u) (green B) (green F)"
    "blue W = blendChannel (semiTransparencyMode u) (blue B) (blue F)"
    using assms(2) by (simp_all add: maskedPixel_def blendedPixel_def)
  have F: "0 \<le> red F \<and> red F \<le> 31 \<and> 0 \<le> green F \<and> green F \<le> 31 \<and>
           0 \<le> blue F \<and> blue F \<le> 31"
    using frontPixel_5bit [OF assms(4)] .
  have "red W = max 0 (min 31
                     (if semiTransparencyMode u = 0 then red B div 2 + red F div 2
                      else if semiTransparencyMode u = 1 then red B + red F
                      else if semiTransparencyMode u = 2 then red B - red F
                      else red B + red F div 4))"
    unfolding ch using assms(3,6) F
      blendChannel_5bit [of "red B" "red F" "semiTransparencyMode u"] by blast
  moreover have "green W = max 0 (min 31
                     (if semiTransparencyMode u = 0 then green B div 2 + green F div 2
                      else if semiTransparencyMode u = 1 then green B + green F
                      else if semiTransparencyMode u = 2 then green B - green F
                      else green B + green F div 4))"
    unfolding ch using assms(3,6) F
      blendChannel_5bit [of "green B" "green F" "semiTransparencyMode u"] by blast
  moreover have "blue W = max 0 (min 31
                     (if semiTransparencyMode u = 0 then blue B div 2 + blue F div 2
                      else if semiTransparencyMode u = 1 then blue B + blue F
                      else if semiTransparencyMode u = 2 then blue B - blue F
                      else blue B + blue F div 4))"
    unfolding ch using assms(3,6) F
      blendChannel_5bit [of "blue B" "blue F" "semiTransparencyMode u"] by blast
  ultimately show ?thesis
    using Q F by blast
qed

theorem blend_written_pixel_witness:
  "ShadedPolygon_main
     \<lparr>dither = 0, semiTransparencyEnabled = 1, semiTransparencyMode = 2, setMask = 0,
      checkMask = 0, drawTopLeftX = 0, drawTopLeftY = 511, drawBottomRightX = 1023,
      drawBottomRightY = 0\<rparr>
     (\<lambda>P. \<lparr>red = 3, green = 20, blue = 31, alpha = 0\<rparr>) (0, 0) (160, 8, 255)
     = ImageStore (0, 0) \<lparr>red = 0, green = 19, blue = 0, alpha = 0\<rparr> \<and>
   frontPixel
     \<lparr>dither = 0, semiTransparencyEnabled = 1, semiTransparencyMode = 2, setMask = 0,
      checkMask = 0, drawTopLeftX = 0, drawTopLeftY = 511, drawBottomRightX = 1023,
      drawBottomRightY = 0\<rparr>
     (0, 0) (160, 8, 255) = Some \<lparr>red = 20, green = 1, blue = 31, alpha = 0\<rparr> \<and>
   (0::int) = max 0 (min 31 (3 - 20)) \<and> (19::int) = max 0 (min 31 (20 - 1)) \<and>
   (0::int) = max 0 (min 31 (31 - 31))"
proof -
  define u where "u = \<lparr>dither = 0, semiTransparencyEnabled = 1, semiTransparencyMode = 2,
      setMask = 0, checkMask = 0, drawTopLeftX = 0, drawTopLeftY = 511,
      drawBottomRightX = 1023, drawBottomRightY = 0\<rparr>"
  define V :: uimage2D where "V = (\<lambda>P. \<lparr>red = 3, green = 20, blue = 31, alpha = 0\<rparr>)"
  have m: "ShadedPolygon_main u V (0, 0) (160, 8, 255)
             = ImageStore (0, 0) \<lparr>red = 0, green = 19, blue = 0, alpha = 0\<rparr>"
    by (simp add: u_def V_def shader_defs)
  have f: "frontPixel u (0, 0) (160, 8, 255) = Some \<lparr>red = 20, green = 1, blue = 31, alpha = 0\<rparr>"
    by (simp add: u_def shader_defs)
  have "semiTransparencyEnabled u = 1" "semiTransparencyMode u \<in> {0, 1, 2, 3}"
    by (simp_all add: u_def)
  from blend_written_pixel [OF m this f, of "imageLoad V (0, 0)"]
  have "red \<lparr>red = 0, green = 19, blue = 0, alpha = 0\<rparr> = max 0 (min 31 (3 - 20)) \<and>
        green \<lparr>red = 0, green = 19, blue = 0, alpha = (0::int)\<rparr> = max 0 (min 31 (20 - 1)) \<and>
        blue \<lparr>red = 0, green = 19, blue = 0, alpha = (0::int)\<rparr> = max 0 (min 31 (31 - 31))"
    by (simp add: u_def V_def imageLoad_def)
  then show ?thesis
    using m f by (simp add: u_def V_def)
qed

text \<open>
  C5. With dithering enabled, for every pixel (x, y) inside the 512 rows of VRAM and every
  8-bit source colour, the shader adds the entry of the 4x4 dither array selected by
  (x mod 4, (511 - y) mod 4) to each of red, green and blue and clamps each to 0 .. 255,
  before the shift by 3 that quantises to 5 bits. For the pixel (0, 0) and the colour
  (130, 130, 130) the entry is +3, the value before quantisation 133 and the quantised
  value 16.
\<close>

theorem dither_before_quantisation:
  assumes "dither u = 1"
    and "0 \<le> x" "0 \<le> y" "y \<le> 511"
    and "0 \<le> cr \<and> cr \<le> 255" "0 \<le> cg \<and> cg \<le> 255" "0 \<le> cb \<and> cb \<le> 255"
    and "offset = ditherArray ! nat (x mod 4) ! nat ((511 - y) mod 4)"
  shows "ditheredPixel u (x, y) (cr, cg, cb) =
           Some \<lparr>red = max 0 (min 255 (cr + offset)),
                 green = max 0 (min 255 (cg + offset)),
                 blue = max 0 (min 255 (cb + offset)),
                 alpha = 0\<rparr> \<and>
         frontPixel u (x, y) (cr, cg, cb) =
           Some \<lparr>red = drop_bit 3 (max 0 (min 255 (cr + offset))),
                 green = drop_bit 3 (max 0 (min 255 (cg + offset))),
                 blue = drop_bit 3 (max 0 (min 255 (cb + offset))),
                 alpha = 0\<rparr> \<and>
         ditherArray ! nat (0 mod 4) ! nat ((511 - 0) mod 4) = 3 \<and>
         ditheredPixel u (0, 0) (130, 130, 130) =
           Some \<lparr>red = 133, green = 133, blue = 133, alpha = 0\<rparr> \<and>
         frontPixel u (0, 0) (130, 130, 130) =
           Some \<lparr>red = 16, green = 16, blue = 16, alpha = 0\<rparr>"
proof -
  have off: "ditherOffset (x, y) = Some offset"
    using assms(2,3,4,8) by (simp add: ditherOffset_in_vram)
  have rng: "- 4 \<le> offset \<and> offset \<le> 3"
    using ditherOffset_range [OF off] .
  have u: "to_uint32 cr = cr" "to_uint32 cg = cg" "to_uint32 cb = cb"
    using assms(5,6,7) by (simp_all add: to_uint32_id)
  have ch: "ditherChannel offset cr = max 0 (min 255 (cr + offset))"
    "ditherChannel offset cg = max 0 (min 255 (cg + offset))"
    "ditherChannel offset cb = max 0 (min 255 (cb + offset))"
    using assms(5,6,7) rng by (simp_all add: ditherChannel_8bit)
  have d: "ditheredPixel u (x, y) (cr, cg, cb) =
           Some \<lparr>red = max 0 (min 255 (cr + offset)),
                 green = max 0 (min 255 (cg + offset)),
                 blue = max 0 (min 255 (cb + offset)),
                 alpha = 0\<rparr>"
    using assms(1) by (simp add: ditheredPixel_def off u ch)
  have q: "\<And>c. quantiseChannel (max 0 (min 255 (c + offset))) = drop_bit 3 (max 0 (min 255 (c + offset)))"
  proof -
    fix c :: int
    have "max 0 (min 255 (c + offset)) div 8 \<le> 255 div 8"
      by (intro zdiv_mono1) simp_all
    then show "quantiseChannel (max 0 (min 255 (c + offset))) = drop_bit 3 (max 0 (min 255 (c + offset)))"
      by (simp add: quantiseChannel_min drop_bit_eq_div)
  qed
  have f: "frontPixel u (x, y) (cr, cg, cb) =
           Some \<lparr>red = drop_bit 3 (max 0 (min 255 (cr + offset))),
                 green = drop_bit 3 (max 0 (min 255 (cg + offset))),
                 blue = drop_bit 3 (max 0 (min 255 (cb + offset))),
                 alpha = 0\<rparr>"
    by (simp add: frontPixel_def d quantisedPixel_def q)
  have e: "ditherArray ! nat (0 mod 4) ! nat ((511 - 0) mod 4) = 3"
    by (simp add: ditherArray_def numeral_3_eq_3)
  have d0: "ditheredPixel u (0, 0) (130, 130, 130) =
           Some \<lparr>red = 133, green = 133, blue = 133, alpha = 0\<rparr>"
    using assms(1) by (simp add: ditheredPixel_def ditherOffset_def glsl_mod_def to_int32_def
        to_uint32_def ditherArray_def ditherChannel_def numeral_3_eq_3)
  have f0: "frontPixel u (0, 0) (130, 130, 130) =
           Some \<lparr>red = 16, green = 16, blue = 16, alpha = 0\<rparr>"
    by (simp add: frontPixel_def d0 quantisedPixel_def quantiseChannel_def)
  show ?thesis
    using d f e d0 f0 by blast
qed

theorem dither_before_quantisation_witness:
  "ditheredPixel
     \<lparr>dither = 1, semiTransparencyEnabled = 0, semiTransparencyMode = 0, setMask = 0,
      checkMask = 0, drawTopLeftX = 0, drawTopLeftY = 511, drawBottomRightX = 1023,
      drawBottomRightY = 0\<rparr>
     (5, 510) (254, 1, 100) = Some \<lparr>red = 252, green = 0, blue = 98, alpha = 0\<rparr> \<and>
   frontPixel
     \<lparr>dither = 1, semiTransparencyEnabled = 0, semiTransparencyMode = 0, setMask = 0,
      checkMask = 0, drawTopLeftX = 0, drawTopLeftY = 511, drawBottomRightX = 1023,
      drawBottomRightY = 0\<rparr>
     (5, 510) (254, 1, 100) = Some \<lparr>red = 31, green = 0, blue = 12, alpha = 0\<rparr> \<and>
   ditherArray ! nat (5 mod 4) ! nat ((511 - 510) mod 4) = - 2"
proof -
  define u where "u = \<lparr>dither = 1, semiTransparencyEnabled = 0, semiTransparencyMode = 0,
      setMask = 0, checkMask = 0, drawTopLeftX = 0, drawTopLeftY = 511,
      drawBottomRightX = 1023, drawBottomRightY = 0\<rparr>"
  have e: "ditherArray ! nat (5 mod 4) ! nat ((511 - 510) mod 4) = - 2"
    by (simp add: ditherArray_def)
  have "dither u = 1"
    by (simp add: u_def)
  from dither_before_quantisation [OF this, of 5 510 254 1 100 "- 2"] e
  show ?thesis
    by (simp add: u_def)
qed

text \<open>
  C6. The quantisation of a channel from 8 to 5 bits (shift right by 3, clamp to 31) is
  monotonic: a larger input never gives a smaller output. It is idempotent: a value q in the
  5-bit range, scaled back to 8 bits (q shifted left by 3, or any other 8-bit value whose top
  five bits are q) and quantised again, gives q; so quantising, scaling back and quantising
  again changes nothing.
\<close>

theorem quantisation_monotonic_idempotent:
  "(v \<le> w \<longrightarrow> quantiseChannel v \<le> quantiseChannel w) \<and>
   (0 \<le> q \<and> q \<le> 31 \<longrightarrow> quantiseChannel (push_bit 3 q) = q) \<and>
   (0 \<le> q \<and> q \<le> 31 \<and> push_bit 3 q \<le> s \<and> s \<le> push_bit 3 q + 7 \<longrightarrow> quantiseChannel s = q) \<and>
   (0 \<le> v \<longrightarrow> quantiseChannel (push_bit 3 (quantiseChannel v)) = quantiseChannel v)"
proof -
  have mono: "v \<le> w \<longrightarrow> quantiseChannel v \<le> quantiseChannel w"
  proof
    assume "v \<le> w"
    then have "v div 8 \<le> w div 8"
      by (intro zdiv_mono1) simp_all
    then show "quantiseChannel v \<le> quantiseChannel w"
      by (simp add: quantiseChannel_min)
  qed
  have near: "quantiseChannel t = p" if "0 \<le> p" "p \<le> 31" "push_bit 3 p \<le> t" "t \<le> push_bit 3 p + 7"
    for p t :: int
  proof -
    have "t div 8 = p"
      using that by (simp add: push_bit_eq_mult)
    then show ?thesis
      using that by (simp add: quantiseChannel_min)
  qed
  have again: "quantiseChannel (push_bit 3 p) = p" if "0 \<le> p" "p \<le> 31" for p :: int
    using that near [of p "push_bit 3 p"] by simp
  have idem: "0 \<le> v \<longrightarrow> quantiseChannel (push_bit 3 (quantiseChannel v)) = quantiseChannel v"
    using again [of "quantiseChannel v"] quantiseChannel_range [of v] by blast
  show ?thesis
    using mono near again idem by blast
qed

theorem quantisation_monotonic_idempotent_witness:
  "quantiseChannel 100 \<le> quantiseChannel 200 \<and>
   quantiseChannel 100 = 12 \<and> quantiseChannel 200 = 25 \<and>
   quantiseChannel (push_bit 3 17) = 17 \<and>
   quantiseChannel 143 = 17 \<and>
   quantiseChannel (push_bit 3 (quantiseChannel 100)) = quantiseChannel 100"
  using quantisation_monotonic_idempotent [of 100 200 17 143]
  by (simp add: quantiseChannel_def)

text \<open>
  C9. A channel value in 0 .. 255 that enters the quantisation is at most 31 after the shift
  by 3, so the condition of the clamp to 0x1F (lines 103, 107 and 111) is false for it and
  the quantised value is the shifted one, in 0 .. 31. The dither block, when it runs,
  guarantees that range: each channel it leaves is in 0 .. 255, whatever the source colour.
\<close>

theorem quantisation_clamp_not_taken:
  "(0 \<le> v \<and> v \<le> 255 \<longrightarrow>
      \<not> drop_bit 3 v > 0x1F \<and> quantiseChannel v = drop_bit 3 v \<and>
      0 \<le> quantiseChannel v \<and> quantiseChannel v \<le> 31) \<and>
   (dither u = 1 \<and> ditheredPixel u P colour = Some d \<longrightarrow>
      (\<forall>ch \<in> {red, green, blue}.
         0 \<le> ch d \<and> ch d \<le> 255 \<and> \<not> drop_bit 3 (ch d) > 0x1F \<and>
         ch (quantisedPixel d) = drop_bit 3 (ch d) \<and>
         0 \<le> ch (quantisedPixel d) \<and> ch (quantisedPixel d) \<le> 31))"
proof -
  have one: "\<not> drop_bit 3 t > 0x1F \<and> quantiseChannel t = drop_bit 3 t \<and>
             0 \<le> quantiseChannel t \<and> quantiseChannel t \<le> 31"
    if "0 \<le> t" "t \<le> 255" for t :: int
  proof -
    have "t div 8 \<le> 255 div 8"
      using that by (intro zdiv_mono1) simp_all
    moreover have "0 \<le> t div 8"
      using that by simp
    ultimately show ?thesis
      by (simp add: quantiseChannel_min drop_bit_eq_div)
  qed
  have two: "\<forall>ch \<in> {red, green, blue}.
         0 \<le> ch d \<and> ch d \<le> 255 \<and> \<not> drop_bit 3 (ch d) > 0x1F \<and>
         ch (quantisedPixel d) = drop_bit 3 (ch d) \<and>
         0 \<le> ch (quantisedPixel d) \<and> ch (quantisedPixel d) \<le> 31"
    if "dither u = 1" "ditheredPixel u P colour = Some d"
  proof -
    have r: "0 \<le> red d \<and> red d \<le> 255" "0 \<le> green d \<and> green d \<le> 255"
      "0 \<le> blue d \<and> blue d \<le> 255"
      using that ditherChannel_range
      by (auto simp: ditheredPixel_def Let_def split: option.splits)
    have q: "red (quantisedPixel d) = quantiseChannel (red d)"
      "green (quantisedPixel d) = quantiseChannel (green d)"
      "blue (quantisedPixel d) = quantiseChannel (blue d)"
      by (simp_all add: quantisedPixel_def)
    show ?thesis
      using r one [of "red d"] one [of "green d"] one [of "blue d"]
      unfolding q [symmetric] by blast
  qed
  show ?thesis
    using one two by blast
qed

theorem quantisation_clamp_not_taken_witness:
  "\<not> drop_bit 3 (255::int) > 0x1F \<and> quantiseChannel 255 = drop_bit 3 255 \<and>
   quantiseChannel 255 = 31 \<and>
   ditheredPixel
     \<lparr>dither = 1, semiTransparencyEnabled = 0, semiTransparencyMode = 0, setMask = 0,
      checkMask = 0, drawTopLeftX = 0, drawTopLeftY = 511, drawBottomRightX = 1023,
      drawBottomRightY = 0\<rparr>
     (0, 0) (1000, - 7, 130) = Some \<lparr>red = 255, green = 0, blue = 133, alpha = 0\<rparr> \<and>
   quantisedPixel \<lparr>red = 255, green = 0, blue = 133, alpha = 0\<rparr> =
     \<lparr>red = 31, green = 0, blue = 16, alpha = 0\<rparr>"
proof -
  define u where "u = \<lparr>dither = 1, semiTransparencyEnabled = 0, semiTransparencyMode = 0,
      setMask = 0, checkMask = 0, drawTopLeftX = 0, drawTopLeftY = 511,
      drawBottomRightX = 1023, drawBottomRightY = 0\<rparr>"
  have d: "ditheredPixel u (0, 0) (1000, - 7, 130) =
             Some \<lparr>red = 255, green = 0, blue = 133, alpha = 0\<rparr>"
    by (simp add: u_def shader_defs numeral_3_eq_3)
  have u: "dither u = 1"
    by (simp add: u_def)
  from quantisation_clamp_not_taken [of 255 u "(0, 0)" "(1000, - 7, 130)"
      "\<lparr>red = 255, green = 0, blue = 133, alpha = 0\<rparr>"] d u
  have "\<not> drop_bit 3 (255::int) > 0x1F \<and> quantiseChannel 255 = drop_bit 3 255 \<and>
        red (quantisedPixel \<lparr>red = 255, green = 0, blue = 133, alpha = 0\<rparr>) = drop_bit 3 255"
    by simp
  moreover have "quantisedPixel \<lparr>red = 255, green = 0, blue = 133, alpha = 0\<rparr> =
     \<lparr>red = 31, green = 0, blue = 16, alpha = 0\<rparr>"
    by (simp add: quantisedPixel_def quantiseChannel_def)
  moreover have "quantiseChannel 255 = 31"
    by (simp add: quantiseChannel_def)
  ultimately show ?thesis
    using d by (simp add: u_def)
qed

text \<open>
  C1. In both fragment shaders that write VRAM, with the mask check enabled a destination
  whose mask bit is 1 is never overwritten: no store happens and VRAM is unchanged. With the
  mask check disabled, a destination inside the drawing area is always overwritten by the
  pixel the shader computed (the GP0(80h) copy overwrites it wherever it lies).
\<close>

theorem mask_check_discipline:
  "(checkMask u = 1 \<and> alpha (imageLoad vramImage P) = 1 \<longrightarrow>
      (\<forall>Q W. ShadedPolygon_main u vramImage P colour \<noteq> ImageStore Q W) \<and>
      (\<forall>img. run_effect (ShadedPolygon_main u vramImage P colour) vramImage = Some img
         \<longrightarrow> img = vramImage) \<and>
      (texPixelOf u vramImage P colour \<noteq> None
         \<longrightarrow> ShadedPolygon_main u vramImage P colour = NoStore)) \<and>
   (checkMask u \<noteq> 1 \<and> inDrawingArea u P \<and>
    (dither u \<noteq> 1 \<or> (0 \<le> fst P \<and> 0 \<le> snd P \<and> snd P \<le> 511)) \<longrightarrow>
      (\<exists>W. texPixelOf u vramImage P colour = Some W \<and>
           ShadedPolygon_main u vramImage P colour = ImageStore P W \<and>
           run_effect (ShadedPolygon_main u vramImage P colour) vramImage
             = Some (vramImage(P := W)))) \<and>
   (cm = 1 \<and> alpha (imageLoad vramImage P) = 1 \<longrightarrow>
      GP0_80_main xo yo sm cm tempDrawImage vramImage P = NoStore \<and>
      run_effect (GP0_80_main xo yo sm cm tempDrawImage vramImage P) vramImage = Some vramImage) \<and>
   (cm \<noteq> 1 \<longrightarrow>
      (\<exists>W. GP0_80_main xo yo sm cm tempDrawImage vramImage P = ImageStore P W \<and>
           run_effect (GP0_80_main xo yo sm cm tempDrawImage vramImage P) vramImage
             = Some (vramImage(P := W))))"
proof -
  have a: "(\<forall>Q W. ShadedPolygon_main u vramImage P colour \<noteq> ImageStore Q W) \<and>
      (\<forall>img. run_effect (ShadedPolygon_main u vramImage P colour) vramImage = Some img
         \<longrightarrow> img = vramImage) \<and>
      (texPixelOf u vramImage P colour \<noteq> None
         \<longrightarrow> ShadedPolygon_main u vramImage P colour = NoStore)"
    if "checkMask u = 1" "alpha (imageLoad vramImage P) = 1"
  proof (cases "texPixelOf u vramImage P colour")
    case None
    then have "ShadedPolygon_main u vramImage P colour = Undefined"
      by (simp add: main_cases)
    then show ?thesis
      using None by simp
  next
    case (Some W)
    then have "ShadedPolygon_main u vramImage P colour = NoStore"
      using that by (simp add: main_cases imageLoad_def)
    then show ?thesis
      by simp
  qed
  have b: "\<exists>W. texPixelOf u vramImage P colour = Some W \<and>
           ShadedPolygon_main u vramImage P colour = ImageStore P W \<and>
           run_effect (ShadedPolygon_main u vramImage P colour) vramImage
             = Some (vramImage(P := W))"
    if h: "checkMask u \<noteq> 1" "inDrawingArea u P"
      "dither u \<noteq> 1 \<or> (0 \<le> fst P \<and> 0 \<le> snd P \<and> snd P \<le> 511)"
  proof -
    obtain W where W: "texPixelOf u vramImage P colour = Some W"
      using texPixelOf_defined [OF h(3)] by blast
    then have "ShadedPolygon_main u vramImage P colour = ImageStore P W"
      using h(1,2) by (simp add: main_cases)
    then show ?thesis
      using W by (simp add: imageStore_def)
  qed
  have c: "GP0_80_main xo yo sm cm tempDrawImage vramImage P = NoStore \<and>
      run_effect (GP0_80_main xo yo sm cm tempDrawImage vramImage P) vramImage = Some vramImage"
    if "cm = 1" "alpha (imageLoad vramImage P) = 1"
    using that by (simp add: GP0_80_main_def Let_def)
  have d: "\<exists>W. GP0_80_main xo yo sm cm tempDrawImage vramImage P = ImageStore P W \<and>
           run_effect (GP0_80_main xo yo sm cm tempDrawImage vramImage P) vramImage
             = Some (vramImage(P := W))"
    if "cm \<noteq> 1"
    using that by (simp add: GP0_80_main_def Let_def imageStore_def)
  show ?thesis
    using a b c d by blast
qed

theorem mask_check_discipline_witness:
  "ShadedPolygon_main
     \<lparr>dither = 1, semiTransparencyEnabled = 0, semiTransparencyMode = 0, setMask = 0,
      checkMask = 1, drawTopLeftX = 10, drawTopLeftY = 100, drawBottomRightX = 20,
      drawBottomRightY = 50\<rparr>
     (\<lambda>P. \<lparr>red = 0, green = 0, blue = 0, alpha = 1\<rparr>) (15, 75) (130, 130, 130) = NoStore \<and>
   ShadedPolygon_main
     \<lparr>dither = 1, semiTransparencyEnabled = 0, semiTransparencyMode = 0, setMask = 0,
      checkMask = 0, drawTopLeftX = 10, drawTopLeftY = 100, drawBottomRightX = 20,
      drawBottomRightY = 50\<rparr>
     (\<lambda>P. \<lparr>red = 0, green = 0, blue = 0, alpha = 1\<rparr>) (15, 75) (130, 130, 130)
     = ImageStore (15, 75) \<lparr>red = 16, green = 16, blue = 16, alpha = 0\<rparr> \<and>
   GP0_80_main 0 0 0 1 (\<lambda>P. \<lparr>red = 31, green = 31, blue = 31, alpha = 0\<rparr>)
     (\<lambda>P. \<lparr>red = 0, green = 0, blue = 0, alpha = 1\<rparr>) (15, 75) = NoStore \<and>
   GP0_80_main 0 0 0 0 (\<lambda>P. \<lparr>red = 31, green = 31, blue = 31, alpha = 0\<rparr>)
     (\<lambda>P. \<lparr>red = 0, green = 0, blue = 0, alpha = 1\<rparr>) (15, 75)
     = ImageStore (15, 75) \<lparr>red = 31, green = 31, blue = 31, alpha = 0\<rparr>"
proof -
  define u1 where "u1 = \<lparr>dither = 1, semiTransparencyEnabled = 0, semiTransparencyMode = 0,
      setMask = 0, checkMask = 1, drawTopLeftX = 10, drawTopLeftY = 100,
      drawBottomRightX = 20, drawBottomRightY = 50\<rparr>"
  define u0 where "u0 = \<lparr>dither = 1, semiTransparencyEnabled = 0, semiTransparencyMode = 0,
      setMask = 0, checkMask = 0, drawTopLeftX = 10, drawTopLeftY = 100,
      drawBottomRightX = 20, drawBottomRightY = 50\<rparr>"
  define V :: uimage2D where "V = (\<lambda>P. \<lparr>red = 0, green = 0, blue = 0, alpha = 1\<rparr>)"
  define T :: uimage2D where "T = (\<lambda>P. \<lparr>red = 31, green = 31, blue = 31, alpha = 0\<rparr>)"
  have t1: "texPixelOf u1 V (15, 75) (130, 130, 130) \<noteq> None"
    by (simp add: u1_def V_def texPixelOf_def frontPixel_def ditheredPixel_def ditherOffset_def
        glsl_mod_def to_int32_def)
  have t0: "texPixelOf u0 V (15, 75) (130, 130, 130)
              = Some \<lparr>red = 16, green = 16, blue = 16, alpha = 0\<rparr>"
    by (simp add: u0_def V_def shader_defs numeral_3_eq_3)
  have h1: "checkMask u1 = 1 \<and> alpha (imageLoad V (15, 75)) = 1"
    by (simp add: u1_def V_def imageLoad_def)
  have h0: "checkMask u0 \<noteq> 1 \<and> inDrawingArea u0 (15, 75) \<and>
            (dither u0 \<noteq> 1 \<or> (0 \<le> fst (15::int, 75::int) \<and> 0 \<le> snd (15::int, 75::int)
               \<and> snd (15::int, 75::int) \<le> 511))"
    by (simp add: u0_def inDrawingArea_def)
  have a: "ShadedPolygon_main u1 V (15, 75) (130, 130, 130) = NoStore \<and>
           GP0_80_main 0 0 0 1 T V (15, 75) = NoStore"
    using mask_check_discipline [of u1 V "(15, 75)" "(130, 130, 130)" 1 0 0 0 T] h1 t1
    by blast
  have b: "ShadedPolygon_main u0 V (15, 75) (130, 130, 130)
             = ImageStore (15, 75) \<lparr>red = 16, green = 16, blue = 16, alpha = 0\<rparr>"
    using mask_check_discipline [of u0 V "(15, 75)" "(130, 130, 130)" 0 0 0 0 T] h0 t0
    by auto
  have c: "GP0_80_main 0 0 0 0 T V (15, 75)
             = ImageStore (15, 75) \<lparr>red = 31, green = 31, blue = 31, alpha = 0\<rparr>"
    by (simp add: GP0_80_main_def T_def V_def imageLoad_def to_int32_def)
  show ?thesis
    using a b c by (simp add: u1_def u0_def V_def T_def)
qed

text \<open>
  C2. A pixel of a shaded polygon is stored only at its own coordinate and only if that
  coordinate is inside the drawing area, bounds included: drawTopLeftX <= x <= drawBottomRightX
  and drawBottomRightY <= y <= drawTopLeftY. A pixel outside is dropped without any other
  effect. With the drawing area left 10, right 20, top 100, bottom 50 the pixel (5, 75) is
  dropped, and the pixel (15, 75) passes the test and is stored whenever the mask check of the
  same step does not hold it back (mask check disabled, or the mask bit of the destination
  not set).
\<close>

theorem clip_rectangle_gate:
  "(ShadedPolygon_main u vramImage (x, y) colour = ImageStore Q W \<longrightarrow>
      Q = (x, y) \<and> drawTopLeftX u \<le> x \<and> x \<le> drawBottomRightX u \<and>
      drawBottomRightY u \<le> y \<and> y \<le> drawTopLeftY u) \<and>
   (\<not> (drawTopLeftX u \<le> x \<and> x \<le> drawBottomRightX u \<and>
        drawBottomRightY u \<le> y \<and> y \<le> drawTopLeftY u) \<and>
    (dither u \<noteq> 1 \<or> (0 \<le> x \<and> 0 \<le> y \<and> y \<le> 511)) \<longrightarrow>
      ShadedPolygon_main u vramImage (x, y) colour = NoStore \<and>
      run_effect (ShadedPolygon_main u vramImage (x, y) colour) vramImage = Some vramImage) \<and>
   (drawTopLeftX u = 10 \<and> drawBottomRightX u = 20 \<and>
    drawTopLeftY u = 100 \<and> drawBottomRightY u = 50 \<longrightarrow>
      ShadedPolygon_main u vramImage (5, 75) colour = NoStore \<and>
      inDrawingArea u (15, 75) \<and>
      (checkMask u \<noteq> 1 \<or> alpha (imageLoad vramImage (15, 75)) \<noteq> 1 \<longrightarrow>
         (\<exists>W. texPixelOf u vramImage (15, 75) colour = Some W \<and>
              ShadedPolygon_main u vramImage (15, 75) colour = ImageStore (15, 75) W \<and>
              run_effect (ShadedPolygon_main u vramImage (15, 75) colour) vramImage
                = Some (vramImage((15, 75) := W)))))"
proof -
  have only_if: "Q = (x, y) \<and> drawTopLeftX u \<le> x \<and> x \<le> drawBottomRightX u \<and>
      drawBottomRightY u \<le> y \<and> y \<le> drawTopLeftY u"
    if "ShadedPolygon_main u vramImage (x, y) colour = ImageStore Q W"
    using that by (auto simp: main_cases inDrawingArea_def split: option.splits if_splits)
  have dropped: "ShadedPolygon_main u vramImage R colour = NoStore \<and>
      run_effect (ShadedPolygon_main u vramImage R colour) vramImage = Some vramImage"
    if h: "\<not> inDrawingArea u R" "dither u \<noteq> 1 \<or> (0 \<le> fst R \<and> 0 \<le> snd R \<and> snd R \<le> 511)"
    for R
  proof -
    obtain T where "texPixelOf u vramImage R colour = Some T"
      using texPixelOf_defined [OF h(2)] by blast
    then have "ShadedPolygon_main u vramImage R colour = NoStore"
      using h(1) by (simp add: main_cases)
    then show ?thesis
      by simp
  qed
  have stored: "\<exists>W. texPixelOf u vramImage R colour = Some W \<and>
              ShadedPolygon_main u vramImage R colour = ImageStore R W \<and>
              run_effect (ShadedPolygon_main u vramImage R colour) vramImage
                = Some (vramImage(R := W))"
    if h: "inDrawingArea u R" "0 \<le> fst R \<and> 0 \<le> snd R \<and> snd R \<le> 511"
      "checkMask u \<noteq> 1 \<or> alpha (imageLoad vramImage R) \<noteq> 1"
    for R
  proof -
    obtain T where T: "texPixelOf u vramImage R colour = Some T"
      using texPixelOf_defined [of u R vramImage colour] h(2) by blast
    then have "ShadedPolygon_main u vramImage R colour = ImageStore R T"
      using h(1,3) by (simp add: main_cases imageLoad_def)
    then show ?thesis
      using T by (simp add: imageStore_def)
  qed
  have scenario: "ShadedPolygon_main u vramImage (5, 75) colour = NoStore \<and>
      inDrawingArea u (15, 75) \<and>
      (checkMask u \<noteq> 1 \<or> alpha (imageLoad vramImage (15, 75)) \<noteq> 1 \<longrightarrow>
         (\<exists>W. texPixelOf u vramImage (15, 75) colour = Some W \<and>
              ShadedPolygon_main u vramImage (15, 75) colour = ImageStore (15, 75) W \<and>
              run_effect (ShadedPolygon_main u vramImage (15, 75) colour) vramImage
                = Some (vramImage((15, 75) := W))))"
    if r: "drawTopLeftX u = 10 \<and> drawBottomRightX u = 20 \<and>
           drawTopLeftY u = 100 \<and> drawBottomRightY u = 50"
  proof -
    have out: "\<not> inDrawingArea u (5, 75)" and inside: "inDrawingArea u (15, 75)"
      using r by (simp_all add: inDrawingArea_def)
    have "ShadedPolygon_main u vramImage (5, 75) colour = NoStore"
      using dropped [of "(5, 75)"] out by simp
    moreover have "checkMask u \<noteq> 1 \<or> alpha (imageLoad vramImage (15, 75)) \<noteq> 1 \<longrightarrow>
         (\<exists>W. texPixelOf u vramImage (15, 75) colour = Some W \<and>
              ShadedPolygon_main u vramImage (15, 75) colour = ImageStore (15, 75) W \<and>
              run_effect (ShadedPolygon_main u vramImage (15, 75) colour) vramImage
                = Some (vramImage((15, 75) := W)))"
      using stored [of "(15, 75)"] inside by simp
    ultimately show ?thesis
      using inside by blast
  qed
  have dropped_xy: "ShadedPolygon_main u vramImage (x, y) colour = NoStore \<and>
      run_effect (ShadedPolygon_main u vramImage (x, y) colour) vramImage = Some vramImage"
    if "\<not> (drawTopLeftX u \<le> x \<and> x \<le> drawBottomRightX u \<and>
        drawBottomRightY u \<le> y \<and> y \<le> drawTopLeftY u)"
       "dither u \<noteq> 1 \<or> (0 \<le> x \<and> 0 \<le> y \<and> y \<le> 511)"
    using dropped [of "(x, y)"] that by (auto simp: inDrawingArea_def)
  show ?thesis
    using only_if dropped_xy scenario by blast
qed

theorem clip_rectangle_gate_witness:
  "ShadedPolygon_main
     \<lparr>dither = 0, semiTransparencyEnabled = 0, semiTransparencyMode = 0, setMask = 1,
      checkMask = 0, drawTopLeftX = 10, drawTopLeftY = 100, drawBottomRightX = 20,
      drawBottomRightY = 50\<rparr>
     (\<lambda>P. \<lparr>red = 0, green = 0, blue = 0, alpha = 0\<rparr>) (5, 75) (255, 0, 64) = NoStore \<and>
   ShadedPolygon_main
     \<lparr>dither = 0, semiTransparencyEnabled = 0, semiTransparencyMode = 0, setMask = 1,
      checkMask = 0, drawTopLeftX = 10, drawTopLeftY = 100, drawBottomRightX = 20,
      drawBottomRightY = 50\<rparr>
     (\<lambda>P. \<lparr>red = 0, green = 0, blue = 0, alpha = 0\<rparr>) (15, 75) (255, 0, 64)
     = ImageStore (15, 75) \<lparr>red = 31, green = 0, blue = 8, alpha = 1\<rparr> \<and>
   ShadedPolygon_main
     \<lparr>dither = 0, semiTransparencyEnabled = 0, semiTransparencyMode = 0, setMask = 1,
      checkMask = 0, drawTopLeftX = 10, drawTopLeftY = 100, drawBottomRightX = 20,
      drawBottomRightY = 50\<rparr>
     (\<lambda>P. \<lparr>red = 0, green = 0, blue = 0, alpha = 0\<rparr>) (21, 75) (255, 0, 64) = NoStore \<and>
   ShadedPolygon_main
     \<lparr>dither = 0, semiTransparencyEnabled = 0, semiTransparencyMode = 0, setMask = 1,
      checkMask = 0, drawTopLeftX = 10, drawTopLeftY = 100, drawBottomRightX = 20,
      drawBottomRightY = 50\<rparr>
     (\<lambda>P. \<lparr>red = 0, green = 0, blue = 0, alpha = 0\<rparr>) (20, 100) (255, 0, 64)
     = ImageStore (20, 100) \<lparr>red = 31, green = 0, blue = 8, alpha = 1\<rparr>"
proof -
  define u where "u = \<lparr>dither = 0, semiTransparencyEnabled = 0, semiTransparencyMode = 0,
      setMask = 1, checkMask = 0, drawTopLeftX = 10, drawTopLeftY = 100,
      drawBottomRightX = 20, drawBottomRightY = 50\<rparr>"
  define V :: uimage2D where "V = (\<lambda>P. \<lparr>red = 0, green = 0, blue = 0, alpha = 0\<rparr>)"
  have r: "drawTopLeftX u = 10 \<and> drawBottomRightX u = 20 \<and>
           drawTopLeftY u = 100 \<and> drawBottomRightY u = 50"
    and m: "checkMask u \<noteq> 1" and d: "dither u \<noteq> 1"
    by (simp_all add: u_def)
  have t: "texPixelOf u V (15, 75) (255, 0, 64)
             = Some \<lparr>red = 31, green = 0, blue = 8, alpha = 1\<rparr>"
    by (simp add: u_def V_def shader_defs)
  have a: "ShadedPolygon_main u V (5, 75) (255, 0, 64) = NoStore \<and>
           ShadedPolygon_main u V (15, 75) (255, 0, 64)
             = ImageStore (15, 75) \<lparr>red = 31, green = 0, blue = 8, alpha = 1\<rparr>"
    using clip_rectangle_gate [of u V 21 75 "(255, 0, 64)"] r m t by auto
  have b: "ShadedPolygon_main u V (21, 75) (255, 0, 64) = NoStore"
    using clip_rectangle_gate [of u V 21 75 "(255, 0, 64)"] r d by simp
  have c: "ShadedPolygon_main u V (20, 100) (255, 0, 64)
             = ImageStore (20, 100) \<lparr>red = 31, green = 0, blue = 8, alpha = 1\<rparr>"
    by (simp add: u_def V_def shader_defs)
  show ?thesis
    using a b c by (simp add: u_def V_def)
qed

text \<open>
  C7, as the specification states it: a pixel of the GP0(80h) VRAM copy is written only if its
  destination lies inside the drawing area and the mask check lets it through. The copy shader
  has no drawing-area test: with the drawing area left 10, right 20, top 100, bottom 50 the
  destination (5, 75) is outside (the shaded polygon shader drops a pixel there), and the
  copy stores the transferred pixel at it.
\<close>

theorem vram_copy_ignores_drawing_area:
  "\<not> inDrawingArea
       \<lparr>dither = 0, semiTransparencyEnabled = 0, semiTransparencyMode = 0, setMask = 0,
        checkMask = 0, drawTopLeftX = 10, drawTopLeftY = 100, drawBottomRightX = 20,
        drawBottomRightY = 50\<rparr> (5, 75) \<and>
   ShadedPolygon_main
     \<lparr>dither = 0, semiTransparencyEnabled = 0, semiTransparencyMode = 0, setMask = 0,
      checkMask = 0, drawTopLeftX = 10, drawTopLeftY = 100, drawBottomRightX = 20,
      drawBottomRightY = 50\<rparr>
     (\<lambda>P. \<lparr>red = 0, green = 0, blue = 0, alpha = 0\<rparr>) (5, 75) (255, 255, 255) = NoStore \<and>
   GP0_80_main 0 0 0 0 (\<lambda>P. \<lparr>red = 31, green = 31, blue = 31, alpha = 0\<rparr>)
     (\<lambda>P. \<lparr>red = 0, green = 0, blue = 0, alpha = 0\<rparr>) (5, 75)
     = ImageStore (5, 75) \<lparr>red = 31, green = 31, blue = 31, alpha = 0\<rparr>"
  by (simp add: shader_defs GP0_80_main_def)

text \<open>
  C7, amended: for every pixel of the GP0(80h) VRAM copy, the pixel is written if and only if
  the mask check is disabled or the mask bit of the existing VRAM pixel is not set, wherever
  the destination lies; no drawing-area test is applied. What is written is the transferred
  pixel (the texel of the temporary draw image at the destination minus the offset), with its
  mask bit set when set-mask is enabled and otherwise unchanged: no dithering, no
  quantisation, no blending. Only the destination texel changes.
\<close>

theorem vram_copy_mask_discipline:
  "((\<exists>W. GP0_80_main xo yo sm cm tempDrawImage vramImage P = ImageStore P W) \<longleftrightarrow>
      (cm \<noteq> 1 \<or> alpha (imageLoad vramImage P) \<noteq> 1)) \<and>
   (GP0_80_main xo yo sm cm tempDrawImage vramImage P = NoStore \<or>
    GP0_80_main xo yo sm cm tempDrawImage vramImage P =
      ImageStore P
        (if sm = 1
         then (imageLoad tempDrawImage (to_int32 (fst P - xo), to_int32 (snd P - yo)))\<lparr>alpha := 1\<rparr>
         else imageLoad tempDrawImage (to_int32 (fst P - xo), to_int32 (snd P - yo)))) \<and>
   (\<exists>img. run_effect (GP0_80_main xo yo sm cm tempDrawImage vramImage P) vramImage = Some img \<and>
          (\<forall>Q. Q \<noteq> P \<longrightarrow> img Q = vramImage Q))"
proof -
  define T where "T = (if sm = 1
         then (imageLoad tempDrawImage (to_int32 (fst P - xo), to_int32 (snd P - yo)))\<lparr>alpha := 1\<rparr>
         else imageLoad tempDrawImage (to_int32 (fst P - xo), to_int32 (snd P - yo)))"
  have m: "GP0_80_main xo yo sm cm tempDrawImage vramImage P =
             (if cm = 1 \<and> alpha (imageLoad vramImage P) = 1 then NoStore else ImageStore P T)"
    by (simp add: GP0_80_main_def T_def Let_def)
  have a: "(\<exists>W. GP0_80_main xo yo sm cm tempDrawImage vramImage P = ImageStore P W) \<longleftrightarrow>
      (cm \<noteq> 1 \<or> alpha (imageLoad vramImage P) \<noteq> 1)"
    unfolding m by auto
  have b: "GP0_80_main xo yo sm cm tempDrawImage vramImage P = NoStore \<or>
           GP0_80_main xo yo sm cm tempDrawImage vramImage P = ImageStore P T"
    unfolding m by simp
  have c: "\<exists>img. run_effect (GP0_80_main xo yo sm cm tempDrawImage vramImage P) vramImage = Some img \<and>
          (\<forall>Q. Q \<noteq> P \<longrightarrow> img Q = vramImage Q)"
    unfolding m by (simp add: imageStore_def)
  show ?thesis
    using a b c unfolding T_def by blast
qed

theorem vram_copy_mask_discipline_witness:
  "GP0_80_main 2 3 1 1 (\<lambda>P. \<lparr>red = fst P, green = snd P, blue = 7, alpha = 0\<rparr>)
     (\<lambda>P. \<lparr>red = 0, green = 0, blue = 0, alpha = 0\<rparr>) (5, 75)
     = ImageStore (5, 75) \<lparr>red = 3, green = 72, blue = 7, alpha = 1\<rparr> \<and>
   GP0_80_main 2 3 1 1 (\<lambda>P. \<lparr>red = fst P, green = snd P, blue = 7, alpha = 0\<rparr>)
     (\<lambda>P. \<lparr>red = 0, green = 0, blue = 0, alpha = 1\<rparr>) (5, 75) = NoStore"
proof -
  define T :: uimage2D where "T = (\<lambda>P. \<lparr>red = fst P, green = snd P, blue = 7, alpha = 0\<rparr>)"
  define V0 :: uimage2D where "V0 = (\<lambda>P. \<lparr>red = 0, green = 0, blue = 0, alpha = 0\<rparr>)"
  define V1 :: uimage2D where "V1 = (\<lambda>P. \<lparr>red = 0, green = 0, blue = 0, alpha = 1\<rparr>)"
  have t: "(imageLoad T (to_int32 (fst (5::int, 75::int) - 2), to_int32 (snd (5::int, 75::int) - 3)))
             \<lparr>alpha := 1\<rparr> = \<lparr>red = 3, green = 72, blue = 7, alpha = 1\<rparr>"
    by (simp add: T_def imageLoad_def to_int32_def)
  have "alpha (imageLoad V0 (5, 75)) \<noteq> 1"
    by (simp add: V0_def imageLoad_def)
  with vram_copy_mask_discipline [of 2 3 1 1 T V0 "(5, 75)"]
  have a: "GP0_80_main 2 3 1 1 T V0 (5, 75)
             = ImageStore (5, 75) \<lparr>red = 3, green = 72, blue = 7, alpha = 1\<rparr>"
    unfolding t by auto
  have "alpha (imageLoad V1 (5, 75)) = 1"
    by (simp add: V1_def imageLoad_def)
  with vram_copy_mask_discipline [of 2 3 1 1 T V1 "(5, 75)"]
  have b: "GP0_80_main 2 3 1 1 T V1 (5, 75) = NoStore"
    by auto
  show ?thesis
    using a b by (simp add: T_def V0_def V1_def)
qed

text \<open>
  C8, as the specification states it: the public interface of the DMA arbiter has a step
  operation. The header declares ten public functions; none is named for a step, and no
  function \<^verbatim>\<open>DMAArbiter_step\<close> is declared.
\<close>

theorem DMAArbiter_declares_no_step:
  "\<not> list_ex (\<lambda>d. mentions ''step'' (fname d)) DMAArbiter_public_functions \<and>
   declared ''DMAArbiter_step'' = None \<and>
   length DMAArbiter_public_functions = 10"
  by code_simp

text \<open>
  C8, amended: the public interface of the DMA arbiter consists of a constructor and a
  destructor, readByte(address) and readWord(address) returning a value, writeByte(address,
  value) and writeWord(address, value) returning nothing, and four setters that attach the
  CD-ROM drive, the CPU, the GPU and the memory interface; it declares no step operation.
\<close>

theorem DMAArbiter_public_interface:
  "map fname DMAArbiter_public_functions =
     [''construct_DMAArbiter'', ''destruct_DMAArbiter'', ''DMAArbiter_readByte'',
      ''DMAArbiter_readWord'', ''DMAArbiter_setCdrom'', ''DMAArbiter_setCpu'',
      ''DMAArbiter_setGpu'', ''DMAArbiter_setMemoryInterface'', ''DMAArbiter_writeByte'',
      ''DMAArbiter_writeWord''] \<and>
   declared ''DMAArbiter_readByte'' = Some (Int8, [Pointer ''DMAArbiter'', Int32]) \<and>
   declared ''DMAArbiter_readWord'' = Some (Int32, [Pointer ''DMAArbiter'', Int32]) \<and>
   declared ''DMAArbiter_writeByte'' = Some (Void, [Pointer ''DMAArbiter'', Int32, Int8]) \<and>
   declared ''DMAArbiter_writeWord'' = Some (Void, [Pointer ''DMAArbiter'', Int32, Int32]) \<and>
   filter (\<lambda>d. mentions ''step'' (fname d)) DMAArbiter_public_functions = []"
  by code_simp

text \<open>
  C10. The vertex shader of GP0(A0h) and the vertex shader of the monochrome rectangle compute
  the same function of \<^verbatim>\<open>gl_VertexID\<close>; for the vertex IDs 0, 1, 2 and 3 both give the
  corners (-1, -1), (-1, 1), (1, -1) and (1, 1) of the viewport, with z = 0 and w = 1.
\<close>

theorem vertex_shaders_agree:
  "GP0_A0_VertexShader1_main gl_VertexID = MonochromeRectangle_VertexShader1_main gl_VertexID \<and>
   map GP0_A0_VertexShader1_main [0, 1, 2, 3] =
     [Some (- 1, - 1, 0, 1), Some (- 1, 1, 0, 1), Some (1, - 1, 0, 1), Some (1, 1, 0, 1)] \<and>
   map MonochromeRectangle_VertexShader1_main [0, 1, 2, 3] =
     [Some (- 1, - 1, 0, 1), Some (- 1, 1, 0, 1), Some (1, - 1, 0, 1), Some (1, 1, 0, 1)]"
  by (simp add: GP0_A0_VertexShader1_main_def MonochromeRectangle_VertexShader1_main_def)

end
